theory Spec2Isabelle
  imports Main
begin

section \<open>The QEMU virtual machine management tool (vm.py)\<close>

text \<open>
  The tool is a command-line front end: it looks a distribution up in fixed tables,
  builds shell command lines and hands them to \<^verbatim>\<open>subprocess.call\<close>. The model
  below follows \<^verbatim>\<open>src/vm.py\<close> function by function. Everything the script does to its
  surroundings is a field of the record \<open>world\<close>; every exception the script can raise
  is a value of the type \<open>error\<close>.
\<close>

subsection \<open>Python values: decimal rendering of integers, joining strings\<close>

text \<open>
  An f-string renders an \<^verbatim>\<open>int\<close> in decimal, with a leading minus sign for a
  negative number and no leading zeros.
\<close>

definition digit_char :: "nat \<Rightarrow> char" where
  "digit_char d = ''0123456789'' ! (d mod 10)"

fun str_nat :: "nat \<Rightarrow> string" where
  "str_nat n = (if n < 10 then [digit_char n] else str_nat (n div 10) @ [digit_char (n mod 10)])"

declare str_nat.simps [simp del]

definition str_int :: "int \<Rightarrow> string" where
  "str_int i = (if i < 0 then CHR ''-'' # str_nat (nat (- i)) else str_nat (nat i))"

text \<open>The reading of a string of decimal digits, most significant digit first.\<close>

definition digit_val :: "char \<Rightarrow> nat" where
  "digit_val c = of_char c - 48"

definition is_digit :: "char \<Rightarrow> bool" where
  "is_digit c = (c \<in> set ''0123456789'')"

definition decimal_value :: "string \<Rightarrow> nat" where
  "decimal_value ds = foldl (\<lambda>acc c. 10 * acc + digit_val c) 0 ds"

text \<open>\<^verbatim>\<open>' '.join(xs)\<close>\<close>

fun join_sp :: "string list \<Rightarrow> string" where
  "join_sp [] = []"
| "join_sp [x] = x"
| "join_sp (x # y # ys) = x @ '' '' @ join_sp (y # ys)"

subsection \<open>Errors and the world\<close>

datatype error =
    TypeError
  | KeyError string
  | OverflowError

text \<open>
  \<open>files\<close> are the paths for which \<^verbatim>\<open>os.path.exists\<close> answers true, \<open>listeners\<close>
  the local TCP ports on which a listener is bound, \<open>cpu_count\<close> the answer of
  \<^verbatim>\<open>os.cpu_count()\<close> (\<open>None\<close> when the host cannot tell), \<open>shell\<close> what running
  a command line does: its exit code and the files that exist afterwards. \<open>stdout\<close>
  collects the texts printed, one entry for each call of \<^verbatim>\<open>print\<close>, and \<open>spawned\<close>
  the command lines handed to \<^verbatim>\<open>subprocess.call\<close>, both in order.
\<close>

record world =
  files :: "string set"
  listeners :: "int set"
  cpu_count :: "nat option"
  shell :: "string \<Rightarrow> string set \<Rightarrow> int \<times> string set"
  stdout :: "string list"
  spawned :: "string list"

definition print :: "string \<Rightarrow> world \<Rightarrow> world" where
  "print s w = w\<lparr>stdout := stdout w @ [s]\<rparr>"

text \<open>\<^verbatim>\<open>subprocess.call(cmd, shell=True)\<close>: runs the command, waits for it, returns its exit code.\<close>

definition subprocess_call :: "string \<Rightarrow> world \<Rightarrow> int \<times> world" where
  "subprocess_call cmd w =
     (let (rc, fs) = shell w cmd (files w)
      in (rc, w\<lparr>files := fs, spawned := spawned w @ [cmd]\<rparr>))"

text \<open>\<^verbatim>\<open>d[k]\<close> on a dictionary raises \<^verbatim>\<open>KeyError\<close> for a missing key; \<^verbatim>\<open>k in d\<close> tests for it.\<close>

definition dict_get :: "(string \<rightharpoonup> 'v) \<Rightarrow> string \<Rightarrow> error + 'v" where
  "dict_get d k = (case d k of None \<Rightarrow> Inl (KeyError k) | Some v \<Rightarrow> Inr v)"

definition dict_in :: "string \<Rightarrow> (string \<rightharpoonup> 'v) \<Rightarrow> bool" where
  "dict_in k d = (d k \<noteq> None)"

subsection \<open>The distribution tables (lines 17 to 28)\<close>

definition debian :: string where
  "debian = ''debian''"

definition ubuntu :: string where
  "ubuntu = ''ubuntu''"

definition distbibutions :: "string list" where
  "distbibutions = [debian, ubuntu]"

definition iso_paths :: "string \<rightharpoonup> string" where
  "iso_paths = map_of
     [(debian, ''debian-10.13.0-amd64-xfce-CD-1.iso''),
      (ubuntu, ''ubuntu-20.04.3-live-server-amd64.iso'')]"

definition iso_urls :: "string \<rightharpoonup> string" where
  "iso_urls = map_of
     [(debian, ''https://cdimage.debian.org/cdimage/archive/10.4.0-live/amd64/iso-hybrid/debian-live-10.4.0-amd64-standard.iso''),
      (ubuntu, ''https://releases.ubuntu.com/focal/ubuntu-20.04.6-desktop-amd64.iso'')]"

subsection \<open>download_iso and iso_exists (lines 31 to 43)\<close>

definition download_iso :: "string \<Rightarrow> world \<Rightarrow> error + world" where
  "download_iso dist w =
     (if dict_in dist iso_paths then
        (case dict_get iso_urls dist of Inl e \<Rightarrow> Inl e | Inr url \<Rightarrow>
          (case dict_get iso_paths dist of Inl e \<Rightarrow> Inl e | Inr path \<Rightarrow>
            (let cmd = ''wget '' @ url @ '' -O '' @ path
             in Inr (snd (subprocess_call cmd w)))))
      else Inr (print ''Distribution not supported'' w))"

definition iso_exists :: "string \<Rightarrow> world \<Rightarrow> error + bool" where
  "iso_exists dist w =
     (if dict_in dist iso_paths then
        (case dict_get iso_paths dist of Inl e \<Rightarrow> Inl e | Inr path \<Rightarrow> Inr (path \<in> files w))
      else Inr False)"

subsection \<open>get_available_port (lines 46 to 58)\<close>

text \<open>
  \<^verbatim>\<open>sock.connect_ex(('127.0.0.1', port))\<close>. The address is checked first: a port outside
  0..65535 raises \<^verbatim>\<open>OverflowError\<close>. Otherwise the result is the error number of the
  connect: 0 when a listener accepts, \<^verbatim>\<open>ECONNREFUSED\<close> (111) when none is bound, and
  \<^verbatim>\<open>EBADF\<close> (9) when the socket object has been closed before, whatever is bound on
  the port.
\<close>

definition connect_ex :: "bool \<Rightarrow> int \<Rightarrow> world \<Rightarrow> error + int" where
  "connect_ex sock_open port w =
     (if port < 0 \<or> 65535 < port then Inl OverflowError
      else if \<not> sock_open then Inr 9
      else if port \<in> listeners w then Inr 0
      else Inr 111)"

text \<open>
  The \<^verbatim>\<open>while True\<close> loop. The socket is created once, before the loop (line 48), and
  closed in every round, right after the connect (line 51): \<open>sock_open\<close> says whether
  it is still open, and every further round runs with \<open>False\<close>.
\<close>

function get_available_port_loop :: "bool \<Rightarrow> int \<Rightarrow> world \<Rightarrow> error + (int \<times> world)" where
  "get_available_port_loop sock_open port w =
     (case connect_ex sock_open port w of
        Inl e \<Rightarrow> Inl e
      | Inr result \<Rightarrow>
          if result = 0 then
            get_available_port_loop False (port + 1)
              (print (''Port '' @ str_int port @ '' is already in use'') w)
          else
            Inr (port, print (''Port '' @ str_int port @ '' is available'') w))"
  by pat_completeness auto
termination
  by (relation "measure (\<lambda>(sock_open, port, w). nat (65536 - port))")
     (auto simp: connect_ex_def split: if_splits)

declare get_available_port_loop.simps [simp del]

definition get_available_port :: "world \<Rightarrow> error + (int \<times> world)" where
  "get_available_port w = get_available_port_loop True 3132 w"

subsection \<open>create_vm_from_iso and create_vm (lines 61 to 75)\<close>

text \<open>The local variable \<^verbatim>\<open>img_path\<close> of \<^verbatim>\<open>create_vm_from_iso\<close> (line 62). The parameter
  \<^verbatim>\<open>size\<close> is written \<open>sz\<close>, since \<open>size\<close> is a constant of HOL.\<close>

definition img_path :: "string \<Rightarrow> int \<Rightarrow> string" where
  "img_path name sz = name @ ''.size'' @ str_int sz @ ''G.qcow2''"

definition create_vm_from_iso :: "string \<Rightarrow> int \<Rightarrow> string \<Rightarrow> world \<Rightarrow> world" where
  "create_vm_from_iso name sz iso_path w =
     (let img = img_path name sz;
          cmd1 = ''qemu-img create -f qcow2 '' @ img @ '' '' @ str_int sz @ ''G'';
          cmd2 = ''qemu-system-x86_64 -enable-kvm -hda '' @ img @ '' -cdrom '' @ iso_path
                 @ '' -m 4000 -boot d -net user -net nic,model=ne2k_pci -enable-kvm'';
          w1 = snd (subprocess_call cmd1 w);
          w2 = snd (subprocess_call cmd2 w1)
      in w2)"

definition create_vm :: "string \<Rightarrow> int \<Rightarrow> string \<Rightarrow> world \<Rightarrow> error + world" where
  "create_vm name sz dist w =
     (if dist \<in> set distbibutions then
        (case iso_exists dist w of Inl e \<Rightarrow> Inl e | Inr present \<Rightarrow>
          (case (if \<not> present then download_iso dist w else Inr w) of Inl e \<Rightarrow> Inl e | Inr w1 \<Rightarrow>
            (case dict_get iso_paths dist of Inl e \<Rightarrow> Inl e | Inr iso_path \<Rightarrow>
               Inr (create_vm_from_iso name sz iso_path w1))))
      else Inr (print ''Distribution not supported'' w))"

subsection \<open>start_vm (lines 78 to 122)\<close>

text \<open>
  Lines 85 and 86: the CPU count. \<^verbatim>\<open>os.cpu_count()\<close> is an \<^verbatim>\<open>int\<close> or \<^verbatim>\<open>None\<close>;
  dividing \<^verbatim>\<open>None\<close> raises \<^verbatim>\<open>TypeError\<close>. For a count \<open>c\<close> the quotient \<^verbatim>\<open>c/2\<close>
  is a float that \<^verbatim>\<open>int\<close> truncates; it is exact below \<open>2^53\<close>, so the value is
  \<open>c div 2\<close>.
\<close>

definition start_vm_ncpus :: "int option \<Rightarrow> world \<Rightarrow> error + int" where
  "start_vm_ncpus ncpus w =
     (case ncpus of
        None \<Rightarrow> (case cpu_count w of None \<Rightarrow> Inl TypeError | Some c \<Rightarrow> Inr (int (c div 2)))
      | Some n \<Rightarrow> Inr n)"

text \<open>
  Line 83 and lines 88 to 113: the list \<^verbatim>\<open>cmd\<close> as it stands after line 113, for the
  CPU count \<open>ncpus\<close> that lines 85 and 86 have settled.
\<close>

definition start_vm_cmd ::
  "string \<Rightarrow> int \<Rightarrow> int \<Rightarrow> bool \<Rightarrow> string option \<Rightarrow> string option \<Rightarrow> int \<Rightarrow> bool \<Rightarrow> bool
   \<Rightarrow> string list" where
  "start_vm_cmd img ssh_port mem_size daemonize disk qemu_extra_args ncpus sudo graphical =
     (let port = ssh_port + 1;
          cmd = [];
          cmd = cmd @ [''qemu-system-x86_64''];
          cmd = (if \<not> graphical then cmd @ [''-vnc 127.0.0.1:'' @ str_int port] else cmd);
          cmd = cmd @ [''-smp '' @ str_int ncpus];
          cmd = cmd @ [''-cpu host''];
          cmd = cmd @ [''-device virtio-net,netdev=user.0''];
          cmd = cmd @ [''-m '' @ str_int mem_size];
          cmd = cmd @ [''-drive file='' @ img
                       @ '',if=virtio,index=0,cache=writeback,discard=ignore,format=qcow2''];
          cmd = cmd @ [''-machine type=pc,accel=kvm''];
          cmd = cmd @ [''-netdev user,id=user.0,hostfwd=tcp::'' @ str_int ssh_port @ ''-:22''];
          cmd = (if daemonize then cmd @ [''--daemonize''] else cmd);
          cmd = (case disk of
                   Some d \<Rightarrow> cmd @ [''-drive file='' @ d
                       @ '',if=virtio,index=1,cache=writeback,discard=ignore,format=qcow2'']
                 | None \<Rightarrow> cmd);
          cmd = (case qemu_extra_args of Some a \<Rightarrow> cmd @ [a] | None \<Rightarrow> cmd);
          cmd = (if sudo then ''sudo'' # cmd else cmd)
      in cmd)"

text \<open>The text of the \<^verbatim>\<open>print\<close> of lines 119 and 120: its six arguments, joined by spaces.\<close>

definition started_message :: "int \<Rightarrow> string" where
  "started_message ssh_port =
     join_sp [''vm started wih ssh port'', str_int ssh_port, ''on localhost'',
              ''connect with \<newline>ssh -p'', str_int ssh_port, ''{USER}@localhost'']"

definition start_vm ::
  "string \<Rightarrow> int \<Rightarrow> int \<Rightarrow> bool \<Rightarrow> string option \<Rightarrow> bool \<Rightarrow> string option \<Rightarrow> int option \<Rightarrow> bool \<Rightarrow> bool
   \<Rightarrow> world \<Rightarrow> error + world" where
  "start_vm img ssh_port mem_size daemonize disk verbose qemu_extra_args ncpus sudo graphical w =
     (case start_vm_ncpus ncpus w of
        Inl e \<Rightarrow> Inl e
      | Inr ncpus \<Rightarrow>
         (let cmd = start_vm_cmd img ssh_port mem_size daemonize disk qemu_extra_args ncpus
                      sudo graphical;
              w1 = (if verbose then print (join_sp cmd) w else w);
              (rc, w2) = subprocess_call (join_sp cmd) w1
          in if rc = 0 then Inr (print (started_message ssh_port) w2)
             else Inr (print ''vm failed to start'' w2)))"

subsection \<open>Notions the properties are stated with\<close>

text \<open>An element of the command list is a VNC flag when it starts with \<^verbatim>\<open>-vnc\<close>.\<close>

definition is_vnc_flag :: "string \<Rightarrow> bool" where
  "is_vnc_flag s = (take 4 s = ''-vnc'')"

text \<open>A host used in the examples: nothing on disk, nothing listening, 8 logical CPUs,
  every command succeeds and leaves the files as they are.\<close>

definition quiet_host :: world where
  "quiet_host = \<lparr>files = {}, listeners = {}, cpu_count = Some 8,
                  shell = (\<lambda>cmd fs. (0, fs)), stdout = [], spawned = []\<rparr>"

section \<open>Auxiliary facts\<close>

subsection \<open>Decimal rendering\<close>

lemma digit_char_cases:
  "d < 10 \<Longrightarrow> d = 0 \<or> d = 1 \<or> d = 2 \<or> d = 3 \<or> d = 4 \<or> d = 5 \<or> d = 6 \<or> d = 7 \<or> d = 8 \<or> d = (9::nat)"
  by arith

lemma digit_val_digit_char: "digit_val (digit_char d) = d mod 10"
proof -
  have "d mod 10 < 10" by simp
  from digit_char_cases [OF this] show ?thesis
    by (elim disjE) (simp_all add: digit_val_def digit_char_def)
qed

lemma is_digit_digit_char: "is_digit (digit_char d)"
proof -
  have "d mod 10 < 10" by simp
  from digit_char_cases [OF this] show ?thesis
    by (elim disjE) (simp_all add: is_digit_def digit_char_def)
qed

lemma digit_char_zero_iff: "digit_char d = CHR ''0'' \<longleftrightarrow> d mod 10 = 0"
proof -
  have "d mod 10 < 10" by simp
  from digit_char_cases [OF this] show ?thesis
    by (elim disjE) (simp_all add: digit_char_def)
qed

lemma decimal_value_snoc: "decimal_value (ds @ [c]) = 10 * decimal_value ds + digit_val c"
  by (simp add: decimal_value_def)

lemma decimal_value_str_nat: "decimal_value (str_nat n) = n"
proof (induction n rule: str_nat.induct)
  case (1 n)
  show ?case
  proof (cases "n < 10")
    case True
    then show ?thesis
      by (simp add: str_nat.simps [of n] decimal_value_def digit_val_digit_char)
  next
    case False
    with "1" show ?thesis
      by (simp add: str_nat.simps [of n] decimal_value_snoc digit_val_digit_char)
  qed
qed

lemma str_nat_digits: "c \<in> set (str_nat n) \<Longrightarrow> is_digit c"
proof (induction n rule: str_nat.induct)
  case (1 n)
  then show ?case
    by (cases "n < 10") (auto simp: str_nat.simps [of n] is_digit_digit_char)
qed

lemma str_nat_not_Nil: "str_nat n \<noteq> []"
  by (simp add: str_nat.simps [of n])

lemma hd_str_nat: "0 < n \<Longrightarrow> hd (str_nat n) \<noteq> CHR ''0''"
proof (induction n rule: str_nat.induct)
  case (1 n)
  show ?case
  proof (cases "n < 10")
    case True
    with "1.prems" show ?thesis
      by (simp add: str_nat.simps [of n] digit_char_zero_iff)
  next
    case False
    then have "0 < n div 10" by simp
    with "1.IH" False have "hd (str_nat (n div 10)) \<noteq> CHR ''0''" by simp
    with False show ?thesis
      by (simp add: str_nat.simps [of n] str_nat_not_Nil)
  qed
qed

text \<open>
  Rules that evaluate \<open>str_nat\<close> on a numeral, one digit at a time.
\<close>

lemma str_nat_small: "n < 10 \<Longrightarrow> str_nat n = [digit_char n]"
  by (simp add: str_nat.simps [of n])

lemma str_nat_big: "\<not> n < 10 \<Longrightarrow> str_nat n = str_nat (n div 10) @ [digit_char (n mod 10)]"
  by (simp add: str_nat.simps [of n])

lemmas str_eval = str_int_def str_nat_small str_nat_big digit_char_def

subsection \<open>The world\<close>

lemma print_fields [simp]:
  "stdout (print s w) = stdout w @ [s]"
  "spawned (print s w) = spawned w"
  "files (print s w) = files w"
  "listeners (print s w) = listeners w"
  "shell (print s w) = shell w"
  "cpu_count (print s w) = cpu_count w"
  by (simp_all add: print_def)

lemma spawned_subprocess_call: "spawned (snd (subprocess_call cmd w)) = spawned w @ [cmd]"
  by (simp add: subprocess_call_def split: prod.splits)

lemma stdout_subprocess_call: "stdout (snd (subprocess_call cmd w)) = stdout w"
  by (simp add: subprocess_call_def split: prod.splits)

subsection \<open>The tables\<close>

lemma iso_paths_cases:
  "iso_paths d =
     (if d = ''debian'' then Some ''debian-10.13.0-amd64-xfce-CD-1.iso''
      else if d = ''ubuntu'' then Some ''ubuntu-20.04.3-live-server-amd64.iso''
      else None)"
  by (simp add: iso_paths_def debian_def ubuntu_def)

lemma iso_urls_None_iff: "iso_urls d = None \<longleftrightarrow> d \<noteq> ''debian'' \<and> d \<noteq> ''ubuntu''"
  by (simp add: iso_urls_def debian_def ubuntu_def)

lemma set_distbibutions: "set distbibutions = {''debian'', ''ubuntu''}"
  by (simp add: distbibutions_def debian_def ubuntu_def)

subsection \<open>The port probe in closed form\<close>

text \<open>
  The first round runs on the open socket and sees whether a listener is bound on 3132.
  A second round runs on the closed socket: its connect fails with \<^verbatim>\<open>EBADF\<close>, and
  3133 is reported available without having been probed. There is never a third round.
\<close>

lemma get_available_port_eq:
  "get_available_port w =
     Inr (if 3132 \<in> listeners w
          then (3133, print (''Port '' @ str_int 3133 @ '' is available'')
                        (print (''Port '' @ str_int 3132 @ '' is already in use'') w))
          else (3132, print (''Port '' @ str_int 3132 @ '' is available'') w))"
  by (simp add: get_available_port_def get_available_port_loop.simps [of True]
      get_available_port_loop.simps [of False] connect_ex_def)

subsection \<open>The command of start_vm in closed form\<close>

lemma if_append: "(if b then xs @ ys else xs) = xs @ (if b then ys else [])"
  by simp

lemma if_not_swap: "(if \<not> b then x else y) = (if b then y else x)"
  by simp

lemma case_option_append:
  "(case d of Some x \<Rightarrow> xs @ f x | None \<Rightarrow> xs) = xs @ (case d of None \<Rightarrow> [] | Some x \<Rightarrow> f x)"
  by (cases d) simp_all

lemma start_vm_cmd_layout:
  "start_vm_cmd img ssh_port mem_size daemonize disk qemu_extra_args n sudo graphical =
     (if sudo then [''sudo''] else [])
     @ [''qemu-system-x86_64'']
     @ (if graphical then [] else [''-vnc 127.0.0.1:'' @ str_int (ssh_port + 1)])
     @ [''-smp '' @ str_int n,
        ''-cpu host'',
        ''-device virtio-net,netdev=user.0'',
        ''-m '' @ str_int mem_size,
        ''-drive file='' @ img @ '',if=virtio,index=0,cache=writeback,discard=ignore,format=qcow2'',
        ''-machine type=pc,accel=kvm'',
        ''-netdev user,id=user.0,hostfwd=tcp::'' @ str_int ssh_port @ ''-:22'']
     @ (if daemonize then [''--daemonize''] else [])
     @ (case disk of None \<Rightarrow> []
        | Some d \<Rightarrow> [''-drive file='' @ d @ '',if=virtio,index=1,cache=writeback,discard=ignore,format=qcow2''])
     @ (case qemu_extra_args of None \<Rightarrow> [] | Some a \<Rightarrow> [a])"
  unfolding start_vm_cmd_def Let_def if_append if_not_swap case_option_append
  by (cases sudo) (simp_all only: if_True if_False append_assoc append_Nil append_Cons)

lemma is_vnc_flag_Cons [simp]:
  "is_vnc_flag (CHR ''-'' # CHR ''v'' # CHR ''n'' # CHR ''c'' # s)"
  "b \<noteq> CHR ''v'' \<Longrightarrow> \<not> is_vnc_flag (a # b # s)"
  by (auto simp: is_vnc_flag_def take_Cons')

lemma start_vm_Inr:
  assumes "start_vm_ncpus ncpus w = Inr n"
    and "shell w (join_sp (start_vm_cmd img ssh_port mem_size daemonize disk qemu_extra_args n
            sudo graphical)) (files w) = (rc, fs)"
  shows "start_vm img ssh_port mem_size daemonize disk verbose qemu_extra_args ncpus sudo graphical w =
     Inr (w\<lparr>files := fs,
            stdout := stdout w
              @ (if verbose
                 then [join_sp (start_vm_cmd img ssh_port mem_size daemonize disk qemu_extra_args n
                         sudo graphical)]
                 else [])
              @ [if rc = 0 then started_message ssh_port else ''vm failed to start''],
            spawned := spawned w
              @ [join_sp (start_vm_cmd img ssh_port mem_size daemonize disk qemu_extra_args n
                   sudo graphical)]\<rparr>)"
  using assms
  by (simp add: start_vm_def Let_def subprocess_call_def print_def)



section \<open>The properties\<close>

text \<open>
  Claim C1. \<open>get_available_port\<close> is meant to return a port on which no listener is
  bound, and a strictly greater port on a second call once a listener is bound on the
  first result. The code does neither: with listeners on 3132 and on 3133 it returns 3133,
  on which a listener is bound; and with a listener on 3132 it returns 3133 whether or not
  3133 has been bound in between, so the second result is not greater than the first.
\<close>

theorem get_available_port_occupied:
  "get_available_port (quiet_host\<lparr>listeners := {3132, 3133}\<rparr>) =
     Inr (3133, quiet_host\<lparr>listeners := {3132, 3133},
                 stdout := [''Port 3132 is already in use'', ''Port 3133 is available'']\<rparr>)
   \<and> 3133 \<in> listeners (quiet_host\<lparr>listeners := {3132, 3133}\<rparr>)
   \<and> get_available_port (quiet_host\<lparr>listeners := {3132}\<rparr>) =
     Inr (3133, quiet_host\<lparr>listeners := {3132},
                 stdout := [''Port 3132 is already in use'', ''Port 3133 is available'']\<rparr>)"
proof -
  have a: "str_int 3132 = ''3132''" by (simp add: str_eval)
  have b: "str_int 3133 = ''3133''" by (simp add: str_eval)
  have q: "stdout quiet_host = []" by (simp add: quiet_host_def)
  show ?thesis
    by (simp add: get_available_port_eq a b print_def q)
qed

text \<open>
  Claim C2. For a distribution string that is not in the list of supported distributions,
  \<open>create_vm\<close> and \<open>download_iso\<close> return normally, having printed
  \<^verbatim>\<open>Distribution not supported\<close> and nothing else: no command is spawned and the
  files are as before.
\<close>

theorem unsupported_distribution:
  "d \<notin> set distbibutions \<Longrightarrow>
     create_vm name sz d w = Inr (print ''Distribution not supported'' w)
     \<and> download_iso d w = Inr (print ''Distribution not supported'' w)
     \<and> stdout (print ''Distribution not supported'' w) = stdout w @ [''Distribution not supported'']
     \<and> spawned (print ''Distribution not supported'' w) = spawned w
     \<and> files (print ''Distribution not supported'' w) = files w"
  by (simp add: set_distbibutions create_vm_def download_iso_def dict_in_def iso_paths_cases print_def)

theorem unsupported_distribution_witness:
  "''fedora'' \<notin> set distbibutions
   \<and> create_vm ''vm'' 10 ''fedora'' quiet_host = Inr (quiet_host\<lparr>stdout := [''Distribution not supported'']\<rparr>)
   \<and> download_iso ''fedora'' quiet_host = Inr (quiet_host\<lparr>stdout := [''Distribution not supported'']\<rparr>)"
  using unsupported_distribution [of "''fedora''" "''vm''" 10 quiet_host]
  by (simp add: set_distbibutions print_def quiet_host_def)

text \<open>
  Claim C3, as amended. The VNC port is \<open>ssh_port + 1\<close>. The elements of the assembled
  command that are VNC flags are: the flag that binds 127.0.0.1 at \<open>ssh_port + 1\<close>, when
  \<open>graphical\<close> is unset, and none from \<open>start_vm\<close> itself when it is set; followed by
  the string \<open>qemu_extra_args\<close>, which is appended verbatim, when that string is a VNC
  flag.
\<close>

theorem vnc_flags_of_cmd:
  "filter is_vnc_flag
     (start_vm_cmd img ssh_port mem_size daemonize disk qemu_extra_args n sudo graphical) =
     (if graphical then [] else [''-vnc 127.0.0.1:'' @ str_int (ssh_port + 1)])
     @ filter is_vnc_flag (case qemu_extra_args of None \<Rightarrow> [] | Some a \<Rightarrow> [a])"
proof -
  have disk: "filter is_vnc_flag (case disk of None \<Rightarrow> []
        | Some d \<Rightarrow> [''-drive file='' @ d @ '',if=virtio,index=1,cache=writeback,discard=ignore,format=qcow2'']) = []"
    by (cases disk) simp_all
  show ?thesis
    unfolding start_vm_cmd_layout filter_append disk
    by simp
qed

theorem vnc_flags_of_cmd_witness:
  "filter is_vnc_flag (start_vm_cmd ''vm.qcow2'' 2222 4000 False None None 4 False False)
     = [''-vnc 127.0.0.1:2223'']
   \<and> filter is_vnc_flag (start_vm_cmd ''vm.qcow2'' 2222 4000 False None None 4 False True) = []"
  using vnc_flags_of_cmd [of "''vm.qcow2''" 2222 4000 False None None 4 False False]
    vnc_flags_of_cmd [of "''vm.qcow2''" 2222 4000 False None None 4 False True]
  by (simp add: str_eval)

text \<open>
  Claim C3 as it is stated fails: with \<open>graphical\<close> set and a VNC flag given in
  \<open>qemu_extra_args\<close>, the assembled command contains a VNC flag.
\<close>

theorem graphical_vnc_counterexample:
  "start_vm_cmd ''vm.qcow2'' 2222 4000 False None (Some ''-vnc 127.0.0.1:2223'') 4 False True =
     [''qemu-system-x86_64'', ''-smp 4'', ''-cpu host'', ''-device virtio-net,netdev=user.0'',
      ''-m 4000'',
      ''-drive file=vm.qcow2,if=virtio,index=0,cache=writeback,discard=ignore,format=qcow2'',
      ''-machine type=pc,accel=kvm'', ''-netdev user,id=user.0,hostfwd=tcp::2222-:22'',
      ''-vnc 127.0.0.1:2223'']
   \<and> is_vnc_flag ''-vnc 127.0.0.1:2223''"
  by (simp add: start_vm_cmd_layout str_eval)

text \<open>
  Claim C4. With \<open>ncpus\<close> unset, on a host that reports \<open>c\<close> logical CPUs, the CPU
  count is \<open>c div 2\<close>: 4 for 8 CPUs. A given \<open>ncpus\<close> is used unchanged. The count so
  settled is the one in the \<^verbatim>\<open>-smp\<close> element of the command that \<open>start_vm\<close> runs.
\<close>

theorem default_ncpus:
  "(cpu_count w = Some c \<longrightarrow> start_vm_ncpus None w = Inr (int (c div 2)))
   \<and> (cpu_count w = Some 8 \<longrightarrow> start_vm_ncpus None w = Inr 4)
   \<and> start_vm_ncpus (Some n) w = Inr n
   \<and> (start_vm_ncpus ncpus w = Inr k \<longrightarrow>
        (\<exists>w'. start_vm img ssh_port mem_size daemonize disk verbose qemu_extra_args ncpus sudo
                graphical w = Inr w'
           \<and> last (spawned w') = join_sp (start_vm_cmd img ssh_port mem_size daemonize disk
                qemu_extra_args k sudo graphical)))
   \<and> ''-smp '' @ str_int k
        \<in> set (start_vm_cmd img ssh_port mem_size daemonize disk qemu_extra_args k sudo graphical)"
proof -
  have used: "\<exists>w'. start_vm img ssh_port mem_size daemonize disk verbose qemu_extra_args ncpus sudo
                graphical w = Inr w'
           \<and> last (spawned w') = join_sp (start_vm_cmd img ssh_port mem_size daemonize disk
                qemu_extra_args k sudo graphical)"
    if k: "start_vm_ncpus ncpus w = Inr k"
  proof -
    obtain rc fs where sh: "shell w (join_sp (start_vm_cmd img ssh_port mem_size daemonize disk
        qemu_extra_args k sudo graphical)) (files w) = (rc, fs)"
      by (cases "shell w (join_sp (start_vm_cmd img ssh_port mem_size daemonize disk
        qemu_extra_args k sudo graphical)) (files w)") blast
    show ?thesis
      unfolding start_vm_Inr [OF k sh] by simp
  qed
  have smp: "''-smp '' @ str_int k
        \<in> set (start_vm_cmd img ssh_port mem_size daemonize disk qemu_extra_args k sudo graphical)"
    unfolding start_vm_cmd_layout
    by (simp only: set_append set_simps Un_iff insert_iff simp_thms)
  show ?thesis
    using used smp by (simp add: start_vm_ncpus_def)
qed

theorem default_ncpus_witness:
  "cpu_count quiet_host = Some 8
   \<and> start_vm_ncpus None quiet_host = Inr 4
   \<and> start_vm_ncpus (Some 3) quiet_host = Inr 3
   \<and> ''-smp 4'' \<in> set (start_vm_cmd ''vm.qcow2'' 2222 4000 False None None 4 False True)"
  using default_ncpus [of quiet_host 8 3 None 4 "''vm.qcow2''" 2222 4000 False None False None False True]
  by (simp add: quiet_host_def str_eval)

text \<open>
  Claim C5. For a positive size, the image filename is the name, \<^verbatim>\<open>.size\<close>, the size
  in decimal (digits only, no leading zero) and \<^verbatim>\<open>G.qcow2\<close>; for the name
  \<^verbatim>\<open>test\<close> and the size 10 it is \<^verbatim>\<open>test.size10G.qcow2\<close>.
\<close>

theorem image_filename:
  "(0 < sz \<longrightarrow>
      (\<exists>ds. img_path name sz = name @ ''.size'' @ ds @ ''G.qcow2''
         \<and> ds \<noteq> [] \<and> (\<forall>c \<in> set ds. is_digit c) \<and> hd ds \<noteq> CHR ''0''
         \<and> int (decimal_value ds) = sz))
   \<and> img_path ''test'' 10 = ''test.size10G.qcow2''"
proof (intro conjI impI)
  assume pos: "0 < sz"
  let ?ds = "str_nat (nat sz)"
  from pos have "img_path name sz = name @ ''.size'' @ ?ds @ ''G.qcow2''"
    by (simp add: img_path_def str_int_def)
  moreover have "?ds \<noteq> []" by (rule str_nat_not_Nil)
  moreover have "\<forall>c \<in> set ?ds. is_digit c" by (blast intro: str_nat_digits)
  moreover from pos have "hd ?ds \<noteq> CHR ''0''" by (simp add: hd_str_nat)
  moreover from pos have "int (decimal_value ?ds) = sz" by (simp add: decimal_value_str_nat)
  ultimately show "\<exists>ds. img_path name sz = name @ ''.size'' @ ds @ ''G.qcow2''
         \<and> ds \<noteq> [] \<and> (\<forall>c \<in> set ds. is_digit c) \<and> hd ds \<noteq> CHR ''0''
         \<and> int (decimal_value ds) = sz"
    by blast
next
  have "str_int 10 = ''10''" by (simp add: str_eval)
  then show "img_path ''test'' 10 = ''test.size10G.qcow2''"
    by (simp add: img_path_def)
qed

theorem image_filename_witness:
  "(0::int) < 10 \<and> img_path ''test'' 10 = ''test.size10G.qcow2''
   \<and> (\<exists>ds. img_path ''test'' 10 = ''test.size'' @ ds @ ''G.qcow2'' \<and> int (decimal_value ds) = 10)"
  using image_filename [of 10 "''test''"] by auto

text \<open>
  Claim C6. \<open>create_vm_from_iso\<close> spawns two commands, in this order and nothing else:
  the disk-image tool creating a qcow2 file of \<open>sz\<close> GB at the composed path, then the
  hypervisor with KVM enabled, the new image as hard disk, \<open>iso_path\<close> as CD-ROM, 4000 MB
  of memory, boot device d (the CD-ROM), user-mode networking and a NIC of model ne2k_pci.
  It prints nothing.
\<close>

theorem create_vm_from_iso_commands:
  "spawned (create_vm_from_iso name sz iso_path w) = spawned w @
     [join_sp [''qemu-img'', ''create'', ''-f'', ''qcow2'', img_path name sz, str_int sz @ ''G''],
      join_sp [''qemu-system-x86_64'', ''-enable-kvm'', ''-hda'', img_path name sz,
               ''-cdrom'', iso_path, ''-m'', ''4000'', ''-boot'', ''d'', ''-net'', ''user'',
               ''-net'', ''nic,model=ne2k_pci'', ''-enable-kvm'']]
   \<and> stdout (create_vm_from_iso name sz iso_path w) = stdout w"
  by (simp add: create_vm_from_iso_def Let_def spawned_subprocess_call stdout_subprocess_call)

text \<open>
  Claim C7. The assembled command is the command with every option off, with
  \<^verbatim>\<open>sudo\<close> in front of it when \<open>sudo\<close> is set, and followed, in this order, by the
  daemonize flag when \<open>daemonize\<close> is set, by a second virtio drive with index 1 and the
  cache, discard and format options of the first when \<open>disk\<close> is set, and by the string
  \<open>qemu_extra_args\<close> as it is when that is set.
\<close>

theorem start_vm_cmd_order:
  "start_vm_cmd img ssh_port mem_size daemonize disk qemu_extra_args n sudo graphical =
     (if sudo then [''sudo''] else [])
     @ start_vm_cmd img ssh_port mem_size False None None n False graphical
     @ (if daemonize then [''--daemonize''] else [])
     @ (case disk of None \<Rightarrow> []
        | Some d \<Rightarrow> [''-drive file='' @ d @ '',if=virtio,index=1,cache=writeback,discard=ignore,format=qcow2''])
     @ (case qemu_extra_args of None \<Rightarrow> [] | Some a \<Rightarrow> [a])
   \<and> hd (start_vm_cmd img ssh_port mem_size False None None n False graphical) = ''qemu-system-x86_64''
   \<and> ''-drive file='' @ img @ '',if=virtio,index=0,cache=writeback,discard=ignore,format=qcow2''
       \<in> set (start_vm_cmd img ssh_port mem_size False None None n False graphical)"
proof -
  have base: "start_vm_cmd img ssh_port mem_size False None None n False graphical =
     [''qemu-system-x86_64'']
     @ (if graphical then [] else [''-vnc 127.0.0.1:'' @ str_int (ssh_port + 1)])
     @ [''-smp '' @ str_int n,
        ''-cpu host'',
        ''-device virtio-net,netdev=user.0'',
        ''-m '' @ str_int mem_size,
        ''-drive file='' @ img @ '',if=virtio,index=0,cache=writeback,discard=ignore,format=qcow2'',
        ''-machine type=pc,accel=kvm'',
        ''-netdev user,id=user.0,hostfwd=tcp::'' @ str_int ssh_port @ ''-:22'']"
    unfolding start_vm_cmd_layout [of img ssh_port mem_size False None None n False graphical]
    by (simp only: if_False option.case append_Nil append_Nil2)
  have "start_vm_cmd img ssh_port mem_size daemonize disk qemu_extra_args n sudo graphical =
     (if sudo then [''sudo''] else [])
     @ start_vm_cmd img ssh_port mem_size False None None n False graphical
     @ (if daemonize then [''--daemonize''] else [])
     @ (case disk of None \<Rightarrow> []
        | Some d \<Rightarrow> [''-drive file='' @ d @ '',if=virtio,index=1,cache=writeback,discard=ignore,format=qcow2''])
     @ (case qemu_extra_args of None \<Rightarrow> [] | Some a \<Rightarrow> [a])"
    unfolding base
    unfolding start_vm_cmd_layout [of img ssh_port mem_size daemonize disk qemu_extra_args n sudo graphical]
    by (simp only: append_assoc)
  moreover have "hd (start_vm_cmd img ssh_port mem_size False None None n False graphical) = ''qemu-system-x86_64''"
    unfolding base by (simp only: append_Cons append_Nil list.sel)
  moreover have "''-drive file='' @ img @ '',if=virtio,index=0,cache=writeback,discard=ignore,format=qcow2''
       \<in> set (start_vm_cmd img ssh_port mem_size False None None n False graphical)"
    unfolding base by (simp only: set_append set_simps Un_iff insert_iff simp_thms)
  ultimately show ?thesis by (simp only: simp_thms)
qed

theorem start_vm_cmd_order_witness:
  "start_vm_cmd ''vm.qcow2'' 2222 4000 True (Some ''data.qcow2'') (Some ''-snapshot'') 4 True False =
     [''sudo'', ''qemu-system-x86_64'', ''-vnc 127.0.0.1:2223'', ''-smp 4'', ''-cpu host'',
      ''-device virtio-net,netdev=user.0'', ''-m 4000'',
      ''-drive file=vm.qcow2,if=virtio,index=0,cache=writeback,discard=ignore,format=qcow2'',
      ''-machine type=pc,accel=kvm'', ''-netdev user,id=user.0,hostfwd=tcp::2222-:22'',
      ''--daemonize'',
      ''-drive file=data.qcow2,if=virtio,index=1,cache=writeback,discard=ignore,format=qcow2'',
      ''-snapshot'']"
proof -
  have base: "start_vm_cmd ''vm.qcow2'' 2222 4000 False None None 4 False False =
     [''qemu-system-x86_64'', ''-vnc 127.0.0.1:2223'', ''-smp 4'', ''-cpu host'',
      ''-device virtio-net,netdev=user.0'', ''-m 4000'',
      ''-drive file=vm.qcow2,if=virtio,index=0,cache=writeback,discard=ignore,format=qcow2'',
      ''-machine type=pc,accel=kvm'', ''-netdev user,id=user.0,hostfwd=tcp::2222-:22'']"
    by (simp add: start_vm_cmd_layout str_eval)
  from start_vm_cmd_order [of "''vm.qcow2''" 2222 4000 True "Some ''data.qcow2''" "Some ''-snapshot''" 4 True False]
  show ?thesis
    unfolding base by simp
qed

text \<open>
  Claim C8. For a supported distribution, the table \<open>iso_paths\<close> has a filename for it,
  and \<open>iso_exists\<close> returns whether that file exists.
\<close>

theorem iso_exists_iff_file:
  "d \<in> set distbibutions \<Longrightarrow>
     \<exists>p. iso_paths d = Some p \<and> iso_exists d w = Inr (p \<in> files w)"
  by (auto simp: set_distbibutions iso_paths_cases iso_exists_def dict_in_def dict_get_def)

theorem iso_exists_iff_file_witness:
  "''debian'' \<in> set distbibutions
   \<and> iso_exists ''debian'' (quiet_host\<lparr>files := {''debian-10.13.0-amd64-xfce-CD-1.iso''}\<rparr>) = Inr True
   \<and> iso_exists ''debian'' quiet_host = Inr False"
  using iso_exists_iff_file [of "''debian''" "quiet_host\<lparr>files := {''debian-10.13.0-amd64-xfce-CD-1.iso''}\<rparr>"]
    iso_exists_iff_file [of "''debian''" quiet_host]
  by (simp add: set_distbibutions iso_paths_cases quiet_host_def)



text \<open>
  Claim C10. The list \<open>distbibutions\<close> that \<open>create_vm\<close> tests, and the key sets of
  the two tables \<open>iso_paths\<close> and \<open>iso_urls\<close> that \<open>download_iso\<close> and \<open>iso_exists\<close>
  use, hold the same strings: a string is in the list exactly when it is a key of both
  tables, and each of the three is the set of debian and ubuntu.
\<close>

theorem supported_distributions_coincide:
  "(d \<in> set distbibutions) = (dict_in d iso_paths \<and> dict_in d iso_urls)
   \<and> set distbibutions = {''debian'', ''ubuntu''}
   \<and> dom iso_paths = {''debian'', ''ubuntu''}
   \<and> dom iso_urls = {''debian'', ''ubuntu''}"
proof -
  have keys_paths: "dom iso_paths = {''debian'', ''ubuntu''}"
    by (auto simp: iso_paths_cases dom_def split: if_splits)
  have keys_urls: "dom iso_urls = {''debian'', ''ubuntu''}"
    using iso_urls_None_iff by (auto simp: dom_def)
  have "(d \<in> set distbibutions) = (dict_in d iso_paths \<and> dict_in d iso_urls)"
    by (auto simp: set_distbibutions dict_in_def iso_paths_cases iso_urls_None_iff)
  with keys_paths keys_urls show ?thesis
    by (simp add: set_distbibutions)
qed

end
